theory Spec2Isabelle
  imports Complex_Main "HOL-Library.Word"
begin

unbundle bit_operations_syntax

section \<open>The BMP3XX driver (adafruit\_bmp3xx.py)\<close>

text \<open>
  A shallow embedding of the class \<open>BMP3XX\<close> and of its register transport.

  \<^item> Python integers are \<open>int\<close>; a byte on the bus is an \<open>8 word\<close>.
  \<^item> Python's float arithmetic is a parameter of the model, an \<open>'v arith\<close>: the values
    \<open>'v\<close> of the platform's numbers and its operations, with no law assumed of them.
    What is proved of a conversion holds for every arithmetic, so for IEEE binary64 with
    its rounding, its infinities and its NaN, bit for bit.
  \<^item> The calibration coefficients and the sea-level pressure are kept in the driver
    object by their values, as reals: the decoding of the calibration block divides
    integers below \<open>2^16\<close> in magnitude by powers of two, which binary floating point
    does exactly.
  \<^item> Exceptions are values of \<open>error\<close>; a function that may raise returns
    \<open>error + 'a\<close> together with the device it leaves behind.
  \<^item> The sensor is a register file that keeps the last byte written to each register,
    together with the answers it still gives to polls of the status register while a
    conversion is running, and the trace of the register transactions made so far.
\<close>

subsection \<open>Constants\<close>

type_synonym byte = "8 word"

definition BMP388_CHIP_ID :: int where "BMP388_CHIP_ID = 0x50"
definition BMP390_CHIP_ID :: int where "BMP390_CHIP_ID = 0x60"

definition REGISTER_CHIPID :: int where "REGISTER_CHIPID = 0x00"
definition REGISTER_STATUS :: int where "REGISTER_STATUS = 0x03"
definition REGISTER_PRESSUREDATA :: int where "REGISTER_PRESSUREDATA = 0x04"
definition REGISTER_TEMPDATA :: int where "REGISTER_TEMPDATA = 0x07"
definition REGISTER_CONTROL :: int where "REGISTER_CONTROL = 0x1B"
definition REGISTER_OSR :: int where "REGISTER_OSR = 0x1C"
definition REGISTER_ODR :: int where "REGISTER_ODR = 0x1D"
definition REGISTER_CONFIG :: int where "REGISTER_CONFIG = 0x1F"
definition REGISTER_CAL_DATA :: int where "REGISTER_CAL_DATA = 0x31"
definition REGISTER_CMD :: int where "REGISTER_CMD = 0x7E"

text \<open>The tuples \<open>_OSR_SETTINGS\<close> and \<open>_IIR_SETTINGS\<close>.\<close>

definition OSR_SETTINGS :: "int list" where
  "OSR_SETTINGS = [1, 2, 4, 8, 16, 32]"

definition IIR_SETTINGS :: "int list" where
  "IIR_SETTINGS = [0, 2, 4, 8, 16, 32, 64, 128]"

subsection \<open>Exceptions and tuple operations\<close>

datatype error =
  RuntimeError | ValueError | IndexError | StructError | ZeroDivisionError | OverflowError

text \<open>\<open>t[i]\<close> on a tuple: a negative index counts from the end, an index out of range
  raises \<open>IndexError\<close>.\<close>

definition tuple_get :: "int list \<Rightarrow> int \<Rightarrow> error + int" where
  "tuple_get t i =
     (let n = int (length t); j = (if i < 0 then n + i else i)
      in if 0 \<le> j \<and> j < n then Inr (t ! nat j) else Inl IndexError)"

text \<open>\<open>t.index(v)\<close>: the position of the first element equal to \<open>v\<close>, \<open>ValueError\<close>
  when there is none.\<close>

fun tuple_index :: "int list \<Rightarrow> int \<Rightarrow> error + int" where
  "tuple_index [] v = Inl ValueError"
| "tuple_index (x # xs) v =
     (if x = v then Inr 0
      else (case tuple_index xs v of Inl e \<Rightarrow> Inl e | Inr i \<Rightarrow> Inr (i + 1)))"

subsection \<open>The sensor behind the register transport\<close>

text \<open>
  \<open>_read_register\<close> and \<open>_write_register_byte\<close> are abstract in \<open>BMP3XX\<close>; the two
  subclasses frame them over I2C and SPI. Both send the register address and the value
  masked to eight bits (\<open>register & 0xFF\<close>, \<open>value & 0xFF\<close>), which is
  \<open>word_of_int\<close>; a read of \<open>length\<close> bytes returns the registers from the address on.

  \<open>status_feed\<close> holds the bytes the sensor answers to the coming reads of the status
  register, one per read; once it is empty the status register answers what it holds.
\<close>

datatype bus_op = RegRead byte nat | RegWrite byte byte

record device =
  regs :: "byte \<Rightarrow> byte"
  status_feed :: "byte list"
  trace :: "bus_op list"

definition reg_value :: "device \<Rightarrow> byte \<Rightarrow> byte" where
  "reg_value d r =
     (if r = word_of_int REGISTER_STATUS
      then (case status_feed d of [] \<Rightarrow> regs d r | s # _ \<Rightarrow> s)
      else regs d r)"

definition read_register :: "device \<Rightarrow> int \<Rightarrow> nat \<Rightarrow> byte list \<times> device" where
  "read_register d register len =
     (let start = (word_of_int register :: byte);
          addrs = map (\<lambda>i. start + of_nat i) [0..<len]
      in (map (reg_value d) addrs,
          d\<lparr>status_feed :=
               (if word_of_int REGISTER_STATUS \<in> set addrs then tl (status_feed d)
                else status_feed d),
            trace := trace d @ [RegRead start len]\<rparr>))"

definition write_register_byte :: "device \<Rightarrow> int \<Rightarrow> int \<Rightarrow> device" where
  "write_register_byte d register val =
     d\<lparr>regs := (regs d)((word_of_int register :: byte) := word_of_int val),
       trace := trace d @ [RegWrite (word_of_int register) (word_of_int val)]\<rparr>"

text \<open>\<open>_read_byte\<close>: \<open>self._read_register(register, 1)[0]\<close>, a Python integer in
  \<open>0..255\<close>.\<close>

definition read_byte :: "device \<Rightarrow> int \<Rightarrow> int \<times> device" where
  "read_byte d register =
     (case read_register d register 1 of (result, d') \<Rightarrow> (uint (hd result), d'))"

subsection \<open>Oversampling and filter configuration\<close>

text \<open>The getters: \<open>_OSR_SETTINGS[self._read_byte(_REGISTER_OSR) & 0x07]\<close>,
  \<open>_OSR_SETTINGS[self._read_byte(_REGISTER_OSR) >> 3 & 0x07]\<close> and
  \<open>_IIR_SETTINGS[self._read_byte(_REGISTER_CONFIG) >> 1 & 0x07]\<close>.\<close>

definition pressure_oversampling :: "device \<Rightarrow> (error + int) \<times> device" where
  "pressure_oversampling d =
     (case read_byte d REGISTER_OSR of
        (b, d') \<Rightarrow> (tuple_get OSR_SETTINGS (b AND 0x07), d'))"

definition temperature_oversampling :: "device \<Rightarrow> (error + int) \<times> device" where
  "temperature_oversampling d =
     (case read_byte d REGISTER_OSR of
        (b, d') \<Rightarrow> (tuple_get OSR_SETTINGS (drop_bit 3 b AND 0x07), d'))"

definition filter_coefficient :: "device \<Rightarrow> (error + int) \<times> device" where
  "filter_coefficient d =
     (case read_byte d REGISTER_CONFIG of
        (b, d') \<Rightarrow> (tuple_get IIR_SETTINGS (drop_bit 1 b AND 0x07), d'))"

text \<open>The setters. The membership test comes first and raises before any transaction;
  then the left operand (the register read) is evaluated before \<open>index\<close>.
  In Python \<open>&\<close> binds tighter than \<open>|\<close> and \<open><<\<close> tighter than both.\<close>

definition set_pressure_oversampling :: "device \<Rightarrow> int \<Rightarrow> (error + unit) \<times> device" where
  "set_pressure_oversampling d oversample =
     (if oversample \<notin> set OSR_SETTINGS then (Inl ValueError, d)
      else (case read_byte d REGISTER_OSR of
        (b, d') \<Rightarrow>
          (case tuple_index OSR_SETTINGS oversample of
             Inl e \<Rightarrow> (Inl e, d')
           | Inr i \<Rightarrow>
               (Inr (), write_register_byte d' REGISTER_OSR ((b AND 0xF8) OR i)))))"

definition set_temperature_oversampling :: "device \<Rightarrow> int \<Rightarrow> (error + unit) \<times> device" where
  "set_temperature_oversampling d oversample =
     (if oversample \<notin> set OSR_SETTINGS then (Inl ValueError, d)
      else (case read_byte d REGISTER_OSR of
        (b, d') \<Rightarrow>
          (case tuple_index OSR_SETTINGS oversample of
             Inl e \<Rightarrow> (Inl e, d')
           | Inr i \<Rightarrow>
               (Inr (), write_register_byte d' REGISTER_OSR ((b AND 0xC7) OR push_bit 3 i)))))"

definition set_filter_coefficient :: "device \<Rightarrow> int \<Rightarrow> (error + unit) \<times> device" where
  "set_filter_coefficient d coef =
     (if coef \<notin> set IIR_SETTINGS then (Inl ValueError, d)
      else (case tuple_index IIR_SETTINGS coef of
         Inl e \<Rightarrow> (Inl e, d)
       | Inr i \<Rightarrow> (Inr (), write_register_byte d REGISTER_CONFIG (push_bit 1 i))))"

text \<open>\<open>reset\<close>: the soft-reset command.\<close>

definition reset :: "device \<Rightarrow> device" where
  "reset d = write_register_byte d REGISTER_CMD 0xB6"


text \<open>The byte a register holds, by its address as the driver writes it.\<close>

definition reg :: "device \<Rightarrow> int \<Rightarrow> byte" where
  "reg d r = regs d (word_of_int r)"

text \<open>A sensor with every register cleared, to build concrete devices from.\<close>

definition blank_device :: device where
  "blank_device = \<lparr>regs = (\<lambda>r. 0), status_feed = [], trace = []\<rparr>"

subsection \<open>Calibration coefficients\<close>

text \<open>
  \<open>struct.unpack\<close> for the little-endian standard layout (\<open><\<close>: no padding) and the
  codes the driver uses: \<open>H\<close> unsigned 16 bit, \<open>h\<close> signed 16 bit, \<open>b\<close> signed
  8 bit, \<open>B\<close> unsigned 8 bit. A buffer whose size is not the size of the format raises
  \<open>struct.error\<close>.
\<close>

definition unsigned16 :: "byte \<Rightarrow> byte \<Rightarrow> int" where
  "unsigned16 lo hi = uint (word_cat hi lo :: 16 word)"

definition signed16 :: "byte \<Rightarrow> byte \<Rightarrow> int" where
  "signed16 lo hi = sint (word_cat hi lo :: 16 word)"

definition signed8 :: "byte \<Rightarrow> int" where
  "signed8 b = sint b"

fun unpack_fields :: "string \<Rightarrow> byte list \<Rightarrow> error + int list" where
  "unpack_fields [] [] = Inr []"
| "unpack_fields [] (b # bs) = Inl StructError"
| "unpack_fields (c # cs) bs =
     (if c = CHR ''H'' then
        (case bs of
           lo # hi # rest \<Rightarrow>
             (case unpack_fields cs rest of
                Inl e \<Rightarrow> Inl e | Inr vs \<Rightarrow> Inr (unsigned16 lo hi # vs))
         | _ \<Rightarrow> Inl StructError)
      else if c = CHR ''h'' then
        (case bs of
           lo # hi # rest \<Rightarrow>
             (case unpack_fields cs rest of
                Inl e \<Rightarrow> Inl e | Inr vs \<Rightarrow> Inr (signed16 lo hi # vs))
         | _ \<Rightarrow> Inl StructError)
      else if c = CHR ''b'' then
        (case bs of
           b # rest \<Rightarrow>
             (case unpack_fields cs rest of
                Inl e \<Rightarrow> Inl e | Inr vs \<Rightarrow> Inr (signed8 b # vs))
         | _ \<Rightarrow> Inl StructError)
      else if c = CHR ''B'' then
        (case bs of
           b # rest \<Rightarrow>
             (case unpack_fields cs rest of
                Inl e \<Rightarrow> Inl e | Inr vs \<Rightarrow> Inr (uint b # vs))
         | _ \<Rightarrow> Inl StructError)
      else Inl StructError)"

definition unpack :: "string \<Rightarrow> byte list \<Rightarrow> error + int list" where
  "unpack fmt buffer =
     (case fmt of
        [] \<Rightarrow> (if buffer = [] then Inr [] else Inl StructError)
      | c # cs \<Rightarrow> (if c = CHR ''<'' then unpack_fields cs buffer else Inl StructError))"

type_synonym temp_calib = "real \<times> real \<times> real"

type_synonym pressure_calib =
  "real \<times> real \<times> real \<times> real \<times> real \<times> real \<times> real \<times> real \<times> real \<times> real \<times> real"

text \<open>\<open>_read_coefficients\<close>: the two tuples it stores in \<open>self._temp_calib\<close> and
  \<open>self._pressure_calib\<close>. \<open>2**-8.0\<close> and the other scales are powers of two with an
  integral exponent, \<open>2 powi n\<close>.\<close>

definition read_coefficients :: "device \<Rightarrow> (error + temp_calib \<times> pressure_calib) \<times> device" where
  "read_coefficients d =
     (case read_register d REGISTER_CAL_DATA 21 of
        (coeff, d') \<Rightarrow>
          (case unpack ''<HHbhhbbHHbbhbb'' coeff of
             Inl e \<Rightarrow> (Inl e, d')
           | Inr coeff \<Rightarrow>
               (Inr ((of_int (coeff ! 0) / 2 powi (- 8),
                      of_int (coeff ! 1) / 2 powi 30,
                      of_int (coeff ! 2) / 2 powi 48),
                     ((of_int (coeff ! 3) - 2 powi 14) / 2 powi 20,
                      (of_int (coeff ! 4) - 2 powi 14) / 2 powi 29,
                      of_int (coeff ! 5) / 2 powi 32,
                      of_int (coeff ! 6) / 2 powi 37,
                      of_int (coeff ! 7) / 2 powi (- 3),
                      of_int (coeff ! 8) / 2 powi 6,
                      of_int (coeff ! 9) / 2 powi 8,
                      of_int (coeff ! 10) / 2 powi 15,
                      of_int (coeff ! 11) / 2 powi 48,
                      of_int (coeff ! 12) / 2 powi 48,
                      of_int (coeff ! 13) / 2 powi 65)), d')))"

subsection \<open>The driver object and its construction\<close>

record bmp3xx =
  temp_calib :: temp_calib
  pressure_calib :: pressure_calib
  sea_level_pressure :: real
  wait_time :: real

text \<open>\<open>BMP3XX.__init__\<close>.\<close>

definition init :: "device \<Rightarrow> (error + bmp3xx) \<times> device" where
  "init d =
     (case read_byte d REGISTER_CHIPID of
        (chip_id, d1) \<Rightarrow>
          if chip_id \<notin> {BMP388_CHIP_ID, BMP390_CHIP_ID} then (Inl RuntimeError, d1)
          else (case read_coefficients d1 of
                  (Inl e, d2) \<Rightarrow> (Inl e, d2)
                | (Inr (tc, pc), d2) \<Rightarrow>
                    (Inr \<lparr>temp_calib = tc, pressure_calib = pc,
                          sea_level_pressure = 1013.25, wait_time = 0.002\<rparr>,
                     reset d2)))"

subsection \<open>Forced-mode conversion and compensation\<close>

text \<open>
  The loop \<open>while self._read_byte(_REGISTER_STATUS) & 0x60 != 0x60: time.sleep(...)\<close>
  has no bound. \<open>wait_ready\<close> runs it for at most \<open>fuel\<close> polls; \<open>None\<close> is the loop
  still running. The sleep between two polls has no effect on the registers.
\<close>

fun wait_ready :: "nat \<Rightarrow> device \<Rightarrow> device option" where
  "wait_ready 0 d = None"
| "wait_ready (Suc fuel) d =
     (case read_byte d REGISTER_STATUS of
        (s, d') \<Rightarrow> if s AND 0x60 \<noteq> 0x60 then wait_ready fuel d' else Some d')"

text \<open>
  The arithmetic of Python's numbers. \<open>fl a x\<close> is the float for the real \<open>x\<close>: the
  float of a literal, of an integer that meets a float, of a stored coefficient.
  \<open>fadd\<close>, \<open>fsub\<close> and \<open>fmul\<close> are \<open>+\<close>, \<open>-\<close> and \<open>*\<close>, which do not raise on
  floats; \<open>fdiv\<close> is \<open>/\<close> by a divisor that is not zero (a zero divisor raises, and the
  driver's functions below test it); \<open>fpow\<close> is \<open>**\<close>, which may raise
  (\<open>OverflowError\<close> when the result is out of range) and which answers a complex number
  for a negative base with a non-integral exponent where the platform has complex
  numbers, so that \<open>'v\<close> stands for the floats and the complex numbers together.
\<close>

record 'v arith =
  fl :: "real \<Rightarrow> 'v"
  fadd :: "'v \<Rightarrow> 'v \<Rightarrow> 'v"
  fsub :: "'v \<Rightarrow> 'v \<Rightarrow> 'v"
  fmul :: "'v \<Rightarrow> 'v \<Rightarrow> 'v"
  fdiv :: "'v \<Rightarrow> 'v \<Rightarrow> 'v"
  fpow :: "'v \<Rightarrow> 'v \<Rightarrow> error + 'v"

text \<open>An expression that may raise, followed by what uses its value.\<close>

definition and_then :: "error + 'a \<Rightarrow> ('a \<Rightarrow> error + 'b) \<Rightarrow> error + 'b" where
  "and_then r f = (case r of Inl e \<Rightarrow> Inl e | Inr x \<Rightarrow> f x)"

text \<open>
  \<open>_read\<close>: the pair (pressure, temperature), or the error a power raised, and the
  device after the conversion. The statements are those of the source, in its order;
  each \<open>**\<close> is evaluated where the source evaluates it. In Python \<open><<\<close> binds tighter
  than \<open>|\<close>, and \<open>|\<close> and \<open>+\<close> associate to the left.
\<close>

definition read_measurement ::
  "'v arith \<Rightarrow> nat \<Rightarrow> bmp3xx \<Rightarrow> device \<Rightarrow> ((error + 'v \<times> 'v) \<times> device) option" where
  "read_measurement a fuel self d =
     (case wait_ready fuel (write_register_byte d REGISTER_CONTROL 0x13) of
        None \<Rightarrow> None
      | Some d1 \<Rightarrow>
          (case read_register d1 REGISTER_PRESSUREDATA 6 of
             (data, d2) \<Rightarrow>
               (let adc_p = (push_bit 16 (uint (data ! 2)) OR push_bit 8 (uint (data ! 1)))
                              OR uint (data ! 0);
                    adc_t = (push_bit 16 (uint (data ! 5)) OR push_bit 8 (uint (data ! 4)))
                              OR uint (data ! 3);
                    (T1, T2, T3) = temp_calib self;
                    pd1 = fsub a (fl a (of_int adc_t)) (fl a T1);
                    pd2 = fmul a pd1 (fl a T2);
                    temperature = fadd a pd2 (fmul a (fmul a pd1 pd1) (fl a T3));
                    (P1, P2, P3, P4, P5, P6, P7, P8, P9, P10, P11) = pressure_calib self;
                    pd1 = fmul a (fl a P6) temperature
                in Some
                  (and_then (fpow a temperature (fl a 2)) (\<lambda>t2.
                   let pd2 = fmul a (fl a P7) t2 in
                   and_then (fpow a temperature (fl a 3)) (\<lambda>t3.
                   let pd3 = fmul a (fl a P8) t3;
                       po1 = fadd a (fadd a (fadd a (fl a P5) pd1) pd2) pd3;
                       pd1 = fmul a (fl a P2) temperature in
                   and_then (fpow a temperature (fl a 2)) (\<lambda>t2.
                   let pd2 = fmul a (fl a P3) t2 in
                   and_then (fpow a temperature (fl a 3)) (\<lambda>t3.
                   let pd3 = fmul a (fl a P4) t3;
                       po2 = fmul a (fl a (of_int adc_p))
                               (fadd a (fadd a (fadd a (fl a P1) pd1) pd2) pd3) in
                   and_then (fpow a (fl a (of_int adc_p)) (fl a 2)) (\<lambda>pd1.
                   let pd2 = fadd a (fl a P9) (fmul a (fl a P10) temperature);
                       pd3 = fmul a pd1 pd2 in
                   and_then (fpow a (fl a (of_int adc_p)) (fl a 3)) (\<lambda>p3.
                   let pd4 = fadd a pd3 (fmul a (fl a P11) p3);
                       pressure = fadd a (fadd a po1 po2) pd4
                   in Inr (pressure, temperature))))))),
                   d2))))"

text \<open>The properties \<open>pressure\<close> (\<open>self._read()[0] / 100\<close>) and \<open>temperature\<close>
  (\<open>self._read()[1]\<close>); an error \<open>_read\<close> raises goes through them.\<close>

definition pressure ::
  "'v arith \<Rightarrow> nat \<Rightarrow> bmp3xx \<Rightarrow> device \<Rightarrow> ((error + 'v) \<times> device) option" where
  "pressure a fuel self d =
     (case read_measurement a fuel self d of
        None \<Rightarrow> None
      | Some (r, d') \<Rightarrow> Some (and_then r (\<lambda>r. Inr (fdiv a (fst r) (fl a 100))), d'))"

definition temperature ::
  "'v arith \<Rightarrow> nat \<Rightarrow> bmp3xx \<Rightarrow> device \<Rightarrow> ((error + 'v) \<times> device) option" where
  "temperature a fuel self d =
     (case read_measurement a fuel self d of
        None \<Rightarrow> None
      | Some (r, d') \<Rightarrow> Some (and_then r (\<lambda>r. Inr (snd r)), d'))"


text \<open>The number of polls after which the status register first shows both conversions
  complete, if it ever does: the answers still to come, then the register's own byte.\<close>

definition ready :: "byte \<Rightarrow> bool" where
  "ready s \<longleftrightarrow> uint s AND 0x60 = 0x60"

definition polls_needed :: "device \<Rightarrow> nat option" where
  "polls_needed d =
     (let n = length (takeWhile (\<lambda>s. \<not> ready s) (status_feed d))
      in if n < length (status_feed d) \<or> ready (reg d REGISTER_STATUS) then Some (Suc n)
         else None)"

subsection \<open>The layout and the formulas as the specification words them\<close>

text \<open>Little-endian unsigned values, and the two's complement reading of a \<open>w\<close>-bit
  value.\<close>

definition le_unsigned :: "byte list \<Rightarrow> int" where
  "le_unsigned bs = foldr (\<lambda>b acc. uint b + 256 * acc) bs 0"

definition twos_complement :: "nat \<Rightarrow> int \<Rightarrow> int" where
  "twos_complement w u = (if u < 2 ^ (w - 1) then u else u - 2 ^ w)"

definition le_signed :: "byte list \<Rightarrow> int" where
  "le_signed bs = twos_complement (8 * length bs) (le_unsigned bs)"

text \<open>The calibration block as the specification lays it out: fourteen sequential
  fields (unsigned16, unsigned16, signed8, signed16, signed16, signed8, signed8,
  unsigned16, unsigned16, signed8, signed8, signed16, signed8, signed8) for T1..T3 and
  P1..P11, each divided by its power of two, P1 and P2 less \<open>2^14\<close> first.\<close>

definition spec_coefficients :: "byte list \<Rightarrow> temp_calib \<times> pressure_calib" where
  "spec_coefficients bs =
     ((of_int (le_unsigned [bs ! 0, bs ! 1]) / 2 powi (- 8),
       of_int (le_unsigned [bs ! 2, bs ! 3]) / 2 ^ 30,
       of_int (le_signed [bs ! 4]) / 2 ^ 48),
      ((of_int (le_signed [bs ! 5, bs ! 6]) - 2 ^ 14) / 2 ^ 20,
       (of_int (le_signed [bs ! 7, bs ! 8]) - 2 ^ 14) / 2 ^ 29,
       of_int (le_signed [bs ! 9]) / 2 ^ 32,
       of_int (le_signed [bs ! 10]) / 2 ^ 37,
       of_int (le_unsigned [bs ! 11, bs ! 12]) / 2 powi (- 3),
       of_int (le_unsigned [bs ! 13, bs ! 14]) / 2 ^ 6,
       of_int (le_signed [bs ! 15]) / 2 ^ 8,
       of_int (le_signed [bs ! 16]) / 2 ^ 15,
       of_int (le_signed [bs ! 17, bs ! 18]) / 2 ^ 48,
       of_int (le_signed [bs ! 19]) / 2 ^ 48,
       of_int (le_signed [bs ! 20]) / 2 ^ 65))"

text \<open>The compensation polynomials of the specification, on the raw ADC values, in an
  arithmetic \<open>a\<close>: sums and products associate as the source's do, and a product has
  its factors in the order the source multiplies them.\<close>

definition spec_temperature :: "'v arith \<Rightarrow> temp_calib \<Rightarrow> int \<Rightarrow> 'v" where
  "spec_temperature a tc adc_t =
     (case tc of (T1, T2, T3) \<Rightarrow>
        (let pd1 = fsub a (fl a (of_int adc_t)) (fl a T1);
             pd2 = fmul a pd1 (fl a T2)
         in fadd a pd2 (fmul a (fmul a pd1 pd1) (fl a T3))))"

definition spec_pressure_raw :: "'v arith \<Rightarrow> pressure_calib \<Rightarrow> 'v \<Rightarrow> int \<Rightarrow> error + 'v" where
  "spec_pressure_raw a pc t adc_p =
     (case pc of (P1, P2, P3, P4, P5, P6, P7, P8, P9, P10, P11) \<Rightarrow>
        and_then (fpow a t (fl a 2)) (\<lambda>t2.
        and_then (fpow a t (fl a 3)) (\<lambda>t3.
        and_then (fpow a (fl a (of_int adc_p)) (fl a 2)) (\<lambda>p2.
        and_then (fpow a (fl a (of_int adc_p)) (fl a 3)) (\<lambda>p3.
          let po1 = fadd a (fadd a (fadd a (fl a P5) (fmul a (fl a P6) t))
                              (fmul a (fl a P7) t2)) (fmul a (fl a P8) t3);
              po2 = fmul a (fl a (of_int adc_p))
                      (fadd a (fadd a (fadd a (fl a P1) (fmul a (fl a P2) t))
                                 (fmul a (fl a P3) t2)) (fmul a (fl a P4) t3));
              pd4 = fadd a (fmul a p2 (fadd a (fl a P9) (fmul a (fl a P10) t)))
                      (fmul a (fl a P11) p3)
          in Inr (fadd a (fadd a po1 po2) pd4))))))"

subsection \<open>Concrete devices and observations\<close>

text \<open>The 21 bytes the sensor holds from the calibration register on.\<close>

definition cal_block :: "device \<Rightarrow> byte list" where
  "cal_block d = map (\<lambda>i. reg d (REGISTER_CAL_DATA + int i)) [0..<21]"

text \<open>The device one conversion leaves behind when the status register showed both
  conversions complete at the \<open>k\<close>-th poll: the control register holds the forced-mode
  command, \<open>k\<close> status answers are used up, and the trace has the command, the polls and
  the burst read.\<close>

definition after_read :: "nat \<Rightarrow> device \<Rightarrow> device" where
  "after_read k d =
     d\<lparr>regs := (regs d)(0x1B := 0x13),
       status_feed := drop k (status_feed d),
       trace := trace d @ [RegWrite 0x1B 0x13] @ replicate k (RegRead 0x03 1)
                  @ [RegRead 0x04 6]\<rparr>"

text \<open>A BMP388 whose conversion completes at the third poll, with small raw values, and
  a driver object with small coefficients.\<close>

definition example_device :: device where
  "example_device =
     blank_device\<lparr>regs := (regs blank_device)
         (0x00 := 0x50, 0x03 := 0x60, 0x04 := 3, 0x07 := 4, 0x1C := 0x0A, 0x1F := 0x04,
          0x31 := 1, 0x33 := 2, 0x35 := 0xFF),
       status_feed := [0x00, 0x20]\<rparr>"

definition example_sensor :: bmp3xx where
  "example_sensor =
     \<lparr>temp_calib = (2, 1 / 2, 1 / 4),
      pressure_calib = (1, 1, 0, 0, 100, 1, 1, 0, 1, 0, 1),
      sea_level_pressure = 1013.25, wait_time = 0.002\<rparr>"

text \<open>
  One arithmetic among those the theorems cover, to evaluate the driver at concrete
  inputs: the exact operations on the reals, without complex numbers (a negative base
  with a non-integral exponent raises, as on a build without them). It is not the
  arithmetic of a platform; no theorem below is about it alone but the evaluations that
  show the hypotheses of the theorems can be met.
\<close>

definition exact_arith :: "real arith" where
  "exact_arith =
     \<lparr>fl = (\<lambda>x. x), fadd = (\<lambda>x y. x + y), fsub = (\<lambda>x y. x - y),
      fmul = (\<lambda>x y. x * y), fdiv = (\<lambda>x y. x / y),
      fpow = (\<lambda>x y.
        if y = of_int \<lfloor>y\<rfloor>
        then (if x = 0 \<and> y < 0 then Inl ZeroDivisionError else Inr (x powi \<lfloor>y\<rfloor>))
        else if x < 0 then Inl ValueError else Inr (x powr y))\<rparr>"

section \<open>Properties\<close>

subsection \<open>Bit fields of a byte\<close>

lemma byte_7_mask: "(7::byte) = mask 3"
  by (simp add: mask_eq_exp_minus_1)

lemma byte_F8_mask: "(0xF8::byte) = NOT (mask 3)"
  by (simp add: mask_eq_exp_minus_1)

lemma byte_C7_mask: "(0xC7::byte) = NOT (push_bit 3 (mask 3))"
  by (simp add: mask_eq_exp_minus_1)

lemma take_bit_3_small: "w < 8 \<Longrightarrow> take_bit 3 w = (w::byte)"
  using less_mask_eq [of w 3] by (simp add: take_bit_eq_mask)

lemma low_field_replaced: "w < 8 \<Longrightarrow> ((b AND 0xF8) OR w) AND 7 = (w::byte)"
proof -
  assume "w < 8"
  then have t: "take_bit 3 w = w" by (rule take_bit_3_small)
  have "((b AND NOT (mask 3)) OR take_bit 3 w) AND mask 3 = take_bit 3 w"
    by (rule bit_word_eqI) (auto simp: bit_simps)
  then show ?thesis by (simp only: t byte_7_mask byte_F8_mask)
qed

lemma high_field_kept:
  "w < 8 \<Longrightarrow> drop_bit 3 ((b AND 0xF8) OR w) AND 7 = drop_bit 3 b AND (7::byte)"
proof -
  assume "w < 8"
  then have t: "take_bit 3 w = w" by (rule take_bit_3_small)
  have "drop_bit 3 ((b AND NOT (mask 3)) OR take_bit 3 w) AND mask 3 = drop_bit 3 b AND mask 3"
    by (rule bit_word_eqI) (auto simp: bit_simps)
  then show ?thesis by (simp only: t byte_7_mask byte_F8_mask)
qed

lemma low_field_kept: "((b AND 0xC7) OR push_bit 3 w) AND 7 = b AND (7::byte)"
proof -
  have "((b AND NOT (push_bit 3 (mask 3))) OR push_bit 3 w) AND mask 3 = b AND mask 3"
    by (rule bit_word_eqI) (auto simp: bit_simps)
  then show ?thesis by (simp only: byte_7_mask byte_C7_mask)
qed

lemma high_field_replaced:
  "w < 8 \<Longrightarrow> drop_bit 3 ((b AND 0xC7) OR push_bit 3 w) AND 7 = (w::byte)"
proof -
  assume "w < 8"
  then have t: "take_bit 3 w = w" by (rule take_bit_3_small)
  have "drop_bit 3 ((b AND NOT (push_bit 3 (mask 3))) OR push_bit 3 (take_bit 3 w)) AND mask 3
          = take_bit 3 w"
    by (rule bit_word_eqI) (auto simp: bit_simps)
  then show ?thesis by (simp only: t byte_7_mask byte_C7_mask)
qed

text \<open>The integer expressions of the driver, on the byte just read, as byte operations.\<close>

lemma merge_low_word:
  "(word_of_int (uint b AND 0xF8 OR i) :: byte) = (b AND 0xF8) OR word_of_int i"
  by (simp add: of_int_or_eq of_int_and_eq)

lemma merge_high_word:
  "(word_of_int (uint b AND 0xC7 OR push_bit 3 i) :: byte)
     = (b AND 0xC7) OR push_bit 3 (word_of_int i)"
  by (simp add: of_int_or_eq of_int_and_eq of_int_push_bit)

lemma take_bit_uint_byte: "take_bit 8 (uint (b::byte)) = uint b"
  using uint_bounded [of b] by (simp add: take_bit_int_eq_self)

lemma low_field_int: "uint (b::byte) AND 0x07 = uint (b AND 7)"
  by (simp add: uint_and)

lemma high_field_int: "drop_bit 3 (uint (b::byte)) AND 0x07 = uint (drop_bit 3 b AND 7)"
  by (simp add: uint_and unsigned_drop_bit_eq take_bit_uint_byte)

lemma small_index_word:
  "0 \<le> i \<Longrightarrow> i < 8 \<Longrightarrow> (word_of_int i :: byte) < 8 \<and> uint (word_of_int i :: byte) = i"
  by (simp add: word_less_def uint_word_of_int)

subsection \<open>Register transactions\<close>

lemma reg_trace_update [simp]: "reg (d\<lparr>trace := t\<rparr>) r = reg d r"
  by (simp add: reg_def)

lemma reg_feed_update [simp]: "reg (d\<lparr>status_feed := f\<rparr>) r = reg d r"
  by (simp add: reg_def)

lemma reg_write_same: "reg (write_register_byte d r v) r = word_of_int v"
  by (simp add: reg_def write_register_byte_def)

lemma read_byte_OSR:
  "read_byte d REGISTER_OSR =
     (uint (reg d REGISTER_OSR), d\<lparr>trace := trace d @ [RegRead 0x1C 1]\<rparr>)"
  by (simp add: read_byte_def read_register_def reg_value_def reg_def
      REGISTER_OSR_def REGISTER_STATUS_def)

lemma read_byte_CONFIG:
  "read_byte d REGISTER_CONFIG =
     (uint (reg d REGISTER_CONFIG), d\<lparr>trace := trace d @ [RegRead 0x1F 1]\<rparr>)"
  by (simp add: read_byte_def read_register_def reg_value_def reg_def
      REGISTER_CONFIG_def REGISTER_STATUS_def)

lemma read_byte_CHIPID:
  "read_byte d REGISTER_CHIPID =
     (uint (reg d REGISTER_CHIPID), d\<lparr>trace := trace d @ [RegRead 0x00 1]\<rparr>)"
  by (simp add: read_byte_def read_register_def reg_value_def reg_def
      REGISTER_CHIPID_def REGISTER_STATUS_def)

lemma read_byte_STATUS:
  "read_byte d REGISTER_STATUS =
     (uint (case status_feed d of [] \<Rightarrow> reg d REGISTER_STATUS | s # _ \<Rightarrow> s),
      d\<lparr>status_feed := tl (status_feed d), trace := trace d @ [RegRead 0x03 1]\<rparr>)"
  by (simp add: read_byte_def read_register_def reg_value_def reg_def REGISTER_STATUS_def
      split: list.splits)

lemma tuple_index_OSR:
  "v \<in> set OSR_SETTINGS \<Longrightarrow>
     \<exists>i. tuple_index OSR_SETTINGS v = Inr i \<and> 0 \<le> i \<and> i < 6 \<and>
         tuple_get OSR_SETTINGS i = Inr v"
  by (auto simp: OSR_SETTINGS_def tuple_get_def)

lemma set_pressure_oversampling_writes:
  assumes "v \<in> set OSR_SETTINGS" and "tuple_index OSR_SETTINGS v = Inr i"
  shows "set_pressure_oversampling d v =
      (Inr (), write_register_byte (d\<lparr>trace := trace d @ [RegRead 0x1C 1]\<rparr>) REGISTER_OSR
                 (uint (reg d REGISTER_OSR) AND 0xF8 OR i))"
  using assms by (simp add: set_pressure_oversampling_def read_byte_OSR)

lemma set_temperature_oversampling_writes:
  assumes "v \<in> set OSR_SETTINGS" and "tuple_index OSR_SETTINGS v = Inr i"
  shows "set_temperature_oversampling d v =
      (Inr (), write_register_byte (d\<lparr>trace := trace d @ [RegRead 0x1C 1]\<rparr>) REGISTER_OSR
                 (uint (reg d REGISTER_OSR) AND 0xC7 OR push_bit 3 i))"
  using assms by (simp add: set_temperature_oversampling_def read_byte_OSR)

subsection \<open>Oversampling and filter configuration\<close>

text \<open>
  Claim C5. For every byte the OSR register holds and every legal oversampling value,
  setting the pressure oversampling succeeds and leaves bits [5:3] of the register (the
  temperature oversampling field) as they were, and setting the temperature oversampling
  succeeds and leaves bits [2:0] (the pressure oversampling field) as they were.
\<close>

theorem oversampling_setters_keep_other_field:
  assumes "v \<in> set OSR_SETTINGS"
  shows "fst (set_pressure_oversampling d v) = Inr () \<and>
         drop_bit 3 (reg (snd (set_pressure_oversampling d v)) REGISTER_OSR) AND 7
           = drop_bit 3 (reg d REGISTER_OSR) AND 7 \<and>
         fst (set_temperature_oversampling d v) = Inr () \<and>
         reg (snd (set_temperature_oversampling d v)) REGISTER_OSR AND 7
           = reg d REGISTER_OSR AND 7"
proof -
  from tuple_index_OSR [OF assms] obtain i where
    i: "tuple_index OSR_SETTINGS v = Inr i" "0 \<le> i" "i < 6" by blast
  then have w: "(word_of_int i :: byte) < 8" using small_index_word [of i] by simp
  note p = set_pressure_oversampling_writes [OF assms i(1), of d]
  note t = set_temperature_oversampling_writes [OF assms i(1), of d]
  have np: "reg (snd (set_pressure_oversampling d v)) REGISTER_OSR
              = (reg d REGISTER_OSR AND 0xF8) OR word_of_int i"
    by (simp only: p snd_conv reg_write_same merge_low_word)
  have nt: "reg (snd (set_temperature_oversampling d v)) REGISTER_OSR
              = (reg d REGISTER_OSR AND 0xC7) OR push_bit 3 (word_of_int i)"
    by (simp only: t snd_conv reg_write_same merge_high_word)
  have "fst (set_pressure_oversampling d v) = Inr ()" by (simp only: p fst_conv)
  moreover have "fst (set_temperature_oversampling d v) = Inr ()" by (simp only: t fst_conv)
  moreover have "drop_bit 3 (reg (snd (set_pressure_oversampling d v)) REGISTER_OSR) AND 7
           = drop_bit 3 (reg d REGISTER_OSR) AND 7"
    by (simp only: np high_field_kept [OF w])
  moreover have "reg (snd (set_temperature_oversampling d v)) REGISTER_OSR AND 7
           = reg d REGISTER_OSR AND 7"
    by (simp only: nt low_field_kept)
  ultimately show ?thesis by blast
qed

theorem oversampling_setters_keep_other_field_witness:
  "(32::int) \<in> set OSR_SETTINGS \<and>
   fst (set_pressure_oversampling example_device 32) = Inr () \<and>
   drop_bit 3 (reg (snd (set_pressure_oversampling example_device 32)) REGISTER_OSR) AND 7
     = drop_bit 3 (reg example_device REGISTER_OSR) AND 7 \<and>
   fst (set_temperature_oversampling example_device 32) = Inr () \<and>
   reg (snd (set_temperature_oversampling example_device 32)) REGISTER_OSR AND 7
     = reg example_device REGISTER_OSR AND 7"
proof -
  have h: "(32::int) \<in> set OSR_SETTINGS" by (simp add: OSR_SETTINGS_def)
  show ?thesis using h oversampling_setters_keep_other_field [OF h, of example_device] by simp
qed


text \<open>
  Claim C6. For every \<open>v\<close> in \<open>{1, 2, 4, 8, 16, 32}\<close>, the pressure oversampling getter
  after the pressure oversampling setter returns \<open>v\<close>, and likewise for the temperature
  oversampling; for every \<open>v\<close> in \<open>{0, 2, 4, 8, 16, 32, 64, 128}\<close>, the filter
  coefficient getter after the filter coefficient setter returns \<open>v\<close>. The register
  holds the last byte written.
\<close>

theorem getter_after_setter:
  "(v \<in> set OSR_SETTINGS \<longrightarrow>
      fst (pressure_oversampling (snd (set_pressure_oversampling d v))) = Inr v \<and>
      fst (temperature_oversampling (snd (set_temperature_oversampling d v))) = Inr v) \<and>
   (v \<in> set IIR_SETTINGS \<longrightarrow>
      fst (filter_coefficient (snd (set_filter_coefficient d v))) = Inr v)"
proof (intro conjI impI)
  assume v: "v \<in> set OSR_SETTINGS"
  from tuple_index_OSR [OF v] obtain i where
    i: "tuple_index OSR_SETTINGS v = Inr i" "0 \<le> i" "i < 6" "tuple_get OSR_SETTINGS i = Inr v"
    by blast
  then have w: "(word_of_int i :: byte) < 8" "uint (word_of_int i :: byte) = i"
    using small_index_word [of i] by simp_all
  note p = set_pressure_oversampling_writes [OF v i(1), of d]
  note t = set_temperature_oversampling_writes [OF v i(1), of d]
  show "fst (pressure_oversampling (snd (set_pressure_oversampling d v))) = Inr v"
    by (simp only: p snd_conv pressure_oversampling_def read_byte_OSR prod.case fst_conv
        reg_write_same merge_low_word low_field_int low_field_replaced [OF w(1)] w(2) i(4))
  show "fst (temperature_oversampling (snd (set_temperature_oversampling d v))) = Inr v"
    by (simp only: t snd_conv temperature_oversampling_def read_byte_OSR prod.case fst_conv
        reg_write_same merge_high_word high_field_int high_field_replaced [OF w(1)] w(2) i(4))
next
  assume v: "v \<in> set IIR_SETTINGS"
  then consider "v = 0" | "v = 2" | "v = 4" | "v = 8" | "v = 16" | "v = 32" | "v = 64"
    | "v = 128"
    by (auto simp: IIR_SETTINGS_def)
  then show "fst (filter_coefficient (snd (set_filter_coefficient d v))) = Inr v"
    by cases
      (simp_all add: set_filter_coefficient_def filter_coefficient_def read_byte_CONFIG
        reg_write_same IIR_SETTINGS_def tuple_get_def)
qed

theorem getter_after_setter_witness:
  "(8::int) \<in> set OSR_SETTINGS \<and> (8::int) \<in> set IIR_SETTINGS \<and>
   fst (pressure_oversampling (snd (set_pressure_oversampling example_device 8))) = Inr 8 \<and>
   fst (temperature_oversampling (snd (set_temperature_oversampling example_device 8))) = Inr 8 \<and>
   fst (filter_coefficient (snd (set_filter_coefficient example_device 8))) = Inr 8"
proof -
  have h: "(8::int) \<in> set OSR_SETTINGS" "(8::int) \<in> set IIR_SETTINGS"
    by (simp_all add: OSR_SETTINGS_def IIR_SETTINGS_def)
  show ?thesis using h getter_after_setter [of 8 example_device] by simp
qed

text \<open>
  Claim C7. For every value outside the legal set, each of the three setters raises
  \<open>ValueError\<close> and returns the device exactly as it was: no register is changed and no
  transaction is added to the trace, so the getter afterwards answers what it answered
  before.
\<close>

theorem setters_reject_illegal_values:
  "(v \<notin> set OSR_SETTINGS \<longrightarrow>
      set_pressure_oversampling d v = (Inl ValueError, d) \<and>
      set_temperature_oversampling d v = (Inl ValueError, d) \<and>
      pressure_oversampling (snd (set_pressure_oversampling d v)) = pressure_oversampling d \<and>
      temperature_oversampling (snd (set_temperature_oversampling d v))
        = temperature_oversampling d) \<and>
   (v \<notin> set IIR_SETTINGS \<longrightarrow>
      set_filter_coefficient d v = (Inl ValueError, d) \<and>
      filter_coefficient (snd (set_filter_coefficient d v)) = filter_coefficient d)"
  by (simp add: set_pressure_oversampling_def set_temperature_oversampling_def
      set_filter_coefficient_def)

theorem setters_reject_illegal_values_witness:
  "(3::int) \<notin> set OSR_SETTINGS \<and> (3::int) \<notin> set IIR_SETTINGS \<and>
   set_pressure_oversampling example_device 3 = (Inl ValueError, example_device) \<and>
   set_temperature_oversampling example_device 3 = (Inl ValueError, example_device) \<and>
   set_filter_coefficient example_device 3 = (Inl ValueError, example_device) \<and>
   trace (snd (set_filter_coefficient example_device 3)) = []"
proof -
  have h: "(3::int) \<notin> set OSR_SETTINGS" "(3::int) \<notin> set IIR_SETTINGS"
    by (simp_all add: OSR_SETTINGS_def IIR_SETTINGS_def)
  show ?thesis
    using h setters_reject_illegal_values [of 3 example_device]
    by (simp add: example_device_def blank_device_def)
qed

text \<open>
  Claim C10, as stated, fails: the oversampling table has six entries and the 3-bit field
  goes up to seven. With the OSR register holding \<open>0x3E\<close> (pressure field 6,
  temperature field 7) both getters raise \<open>IndexError\<close>.
\<close>

theorem oversampling_getter_index_error:
  "fst (pressure_oversampling (blank_device\<lparr>regs := (regs blank_device)(0x1C := 0x3E)\<rparr>))
     = Inl IndexError \<and>
   fst (temperature_oversampling (blank_device\<lparr>regs := (regs blank_device)(0x1C := 0x3E)\<rparr>))
     = Inl IndexError"
  by (simp add: pressure_oversampling_def temperature_oversampling_def read_byte_def
      read_register_def reg_value_def REGISTER_OSR_def REGISTER_STATUS_def blank_device_def
      tuple_get_def OSR_SETTINGS_def)

text \<open>
  Claim C10, amended. For every byte the OSR register holds, a getter returns the entry
  of the oversampling table at the index its 3-bit field gives (bits [2:0] for pressure,
  bits [5:3] for temperature) when that index is at most 5, and raises \<open>IndexError\<close>
  when it is 6 or 7.
\<close>

theorem oversampling_getter_in_table:
  "(let pf = uint (reg d REGISTER_OSR AND 7);
        tf = uint (drop_bit 3 (reg d REGISTER_OSR) AND 7)
    in fst (pressure_oversampling d) =
         (if pf < 6 then Inr (OSR_SETTINGS ! nat pf) else Inl IndexError) \<and>
       fst (temperature_oversampling d) =
         (if tf < 6 then Inr (OSR_SETTINGS ! nat tf) else Inl IndexError) \<and>
       (if pf < 6 then OSR_SETTINGS ! nat pf \<in> set OSR_SETTINGS else pf \<in> {6, 7}) \<and>
       (if tf < 6 then OSR_SETTINGS ! nat tf \<in> set OSR_SETTINGS else tf \<in> {6, 7}))"
proof -
  define pf where "pf = uint (reg d REGISTER_OSR AND 7)"
  define tf where "tf = uint (drop_bit 3 (reg d REGISTER_OSR) AND 7)"
  have bound: "0 \<le> uint (w AND 7) \<and> uint (w AND 7) \<le> 7" for w :: byte
    using word_and_le1 [of w 7] by (simp add: word_le_def)
  have len: "int (length OSR_SETTINGS) = 6"
    by (simp add: OSR_SETTINGS_def)
  have table: "OSR_SETTINGS ! nat n \<in> set OSR_SETTINGS" if "0 \<le> n" "n < 6" for n :: int
    using that by (intro nth_mem) (simp add: OSR_SETTINGS_def)
  have pf: "0 \<le> pf" "pf \<le> 7" and tf: "0 \<le> tf" "tf \<le> 7"
    using bound by (simp_all add: pf_def tf_def)
  have p: "fst (pressure_oversampling d) =
             (if pf < 6 then Inr (OSR_SETTINGS ! nat pf) else Inl IndexError)"
    using pf
    by (simp add: pressure_oversampling_def read_byte_OSR low_field_int tuple_get_def len
        flip: pf_def)
  have t: "fst (temperature_oversampling d) =
             (if tf < 6 then Inr (OSR_SETTINGS ! nat tf) else Inl IndexError)"
    using tf
    by (simp add: temperature_oversampling_def read_byte_OSR high_field_int tuple_get_def len
        flip: tf_def)
  have pm: "if pf < 6 then OSR_SETTINGS ! nat pf \<in> set OSR_SETTINGS else pf \<in> {6, 7}"
    using pf table [of pf] by auto
  have tm: "if tf < 6 then OSR_SETTINGS ! nat tf \<in> set OSR_SETTINGS else tf \<in> {6, 7}"
    using tf table [of tf] by auto
  from p t pm tm show ?thesis
    unfolding pf_def tf_def Let_def by blast
qed

theorem oversampling_getter_in_table_witness:
  "fst (pressure_oversampling example_device) = Inr 4 \<and>
   fst (temperature_oversampling example_device) = Inr 2"
  using oversampling_getter_in_table [of example_device]
  by (simp add: Let_def reg_def example_device_def blank_device_def REGISTER_OSR_def
      OSR_SETTINGS_def)


text \<open>
  Claim C4, as stated, fails: the filter setter does not read the CONFIG register; it
  writes the shifted index alone. With CONFIG holding \<open>0x01\<close>, setting the
  coefficient 2 (index 1) leaves \<open>0x02\<close> in the register: bit 0 is lost.
\<close>

theorem filter_setter_overwrites_register:
  "reg (blank_device\<lparr>regs := (regs blank_device)(0x1F := 0x01)\<rparr>) REGISTER_CONFIG = 0x01 \<and>
   set_filter_coefficient (blank_device\<lparr>regs := (regs blank_device)(0x1F := 0x01)\<rparr>) 2
     = (Inr (), blank_device\<lparr>regs := (regs blank_device)(0x1F := 0x02),
                              trace := [RegWrite 0x1F 0x02]\<rparr>) \<and>
   reg (snd (set_filter_coefficient
               (blank_device\<lparr>regs := (regs blank_device)(0x1F := 0x01)\<rparr>) 2))
       REGISTER_CONFIG AND NOT 0x0E
     \<noteq> reg (blank_device\<lparr>regs := (regs blank_device)(0x1F := 0x01)\<rparr>) REGISTER_CONFIG
         AND NOT 0x0E"
  by (simp add: set_filter_coefficient_def IIR_SETTINGS_def write_register_byte_def reg_def
      REGISTER_CONFIG_def blank_device_def)

text \<open>
  Claim C4, amended. The filter setter makes one write and no read: for every legal
  coefficient and every byte the CONFIG register held before, the byte written has the
  table index in bits [3:1] and every other bit clear, whatever the register held.
\<close>

theorem filter_setter_writes_index:
  assumes "v \<in> set IIR_SETTINGS" and "tuple_index IIR_SETTINGS v = Inr i"
  shows "(let w = (word_of_int (push_bit 1 i) :: byte)
          in set_filter_coefficient d v =
               (Inr (), d\<lparr>regs := (regs d)(0x1F := w),
                          trace := trace d @ [RegWrite 0x1F w]\<rparr>) \<and>
             uint (drop_bit 1 w AND 7) = i \<and> w AND NOT 0x0E = 0)"
proof -
  from assms(1) consider "v = 0" | "v = 2" | "v = 4" | "v = 8" | "v = 16" | "v = 32"
    | "v = 64" | "v = 128"
    by (auto simp: IIR_SETTINGS_def)
  then show ?thesis
    using assms(2)
    by cases
      (auto simp: set_filter_coefficient_def IIR_SETTINGS_def write_register_byte_def
        REGISTER_CONFIG_def)
qed

theorem filter_setter_writes_index_witness:
  "(64::int) \<in> set IIR_SETTINGS \<and> tuple_index IIR_SETTINGS 64 = Inr 6 \<and>
   set_filter_coefficient example_device 64 =
     (Inr (), example_device\<lparr>regs := (regs example_device)(0x1F := 0x0C),
                              trace := trace example_device @ [RegWrite 0x1F 0x0C]\<rparr>)"
proof -
  have h: "(64::int) \<in> set IIR_SETTINGS" "tuple_index IIR_SETTINGS 64 = Inr 6"
    by (simp_all add: IIR_SETTINGS_def)
  show ?thesis
    using h filter_setter_writes_index [OF h, of example_device] by (simp add: Let_def)
qed


subsection \<open>The status poll\<close>

text \<open>The loop returns exactly when the status register shows both conversions complete
  at some poll and the fuel reaches that poll; otherwise it never returns.\<close>

lemma wait_ready_returns:
  "polls_needed d = Some k \<Longrightarrow> k \<le> fuel \<Longrightarrow>
     wait_ready fuel d =
       Some (d\<lparr>status_feed := drop k (status_feed d),
               trace := trace d @ replicate k (RegRead 0x03 1)\<rparr>)"
proof (induction fuel arbitrary: d k)
  case 0
  then show ?case by (simp add: polls_needed_def Let_def split: if_splits)
next
  case (Suc fuel)
  show ?case
  proof (cases "status_feed d")
    case Nil
    with Suc.prems show ?thesis
      by (auto simp: polls_needed_def read_byte_STATUS ready_def split: if_splits)
  next
    case (Cons s ss)
    show ?thesis
    proof (cases "ready s")
      case True
      with Cons Suc.prems show ?thesis
        by (auto simp: polls_needed_def read_byte_STATUS ready_def split: if_splits)
    next
      case False
      let ?d' = "d\<lparr>status_feed := ss, trace := trace d @ [RegRead 0x03 1]\<rparr>"
      from False Cons Suc.prems obtain k' where k': "k = Suc k'" "polls_needed ?d' = Some k'"
        by (auto simp: polls_needed_def Let_def split: if_splits)
      with Suc.prems have "k' \<le> fuel" by simp
      from Suc.IH [OF k'(2) this] False Cons k' show ?thesis
        by (simp add: read_byte_STATUS ready_def replicate_app_Cons_same)
    qed
  qed
qed

lemma wait_ready_never:
  "polls_needed d = None \<Longrightarrow> wait_ready fuel d = None"
proof (induction fuel arbitrary: d)
  case 0
  then show ?case by simp
next
  case (Suc fuel)
  show ?case
  proof (cases "status_feed d")
    case Nil
    let ?d' = "d\<lparr>status_feed := [], trace := trace d @ [RegRead 0x03 1]\<rparr>"
    from Nil Suc.prems have "polls_needed ?d' = None" and "\<not> ready (reg d REGISTER_STATUS)"
      by (auto simp: polls_needed_def Let_def split: if_splits)
    with Suc.IH [of ?d'] Nil show ?thesis
      by (simp add: read_byte_STATUS ready_def)
  next
    case (Cons s ss)
    let ?d' = "d\<lparr>status_feed := ss, trace := trace d @ [RegRead 0x03 1]\<rparr>"
    from Cons Suc.prems have "polls_needed ?d' = None" and "\<not> ready s"
      by (auto simp: polls_needed_def Let_def split: if_splits)
    with Suc.IH [of ?d'] Cons show ?thesis
      by (simp add: read_byte_STATUS ready_def)
  qed
qed

lemma polls_needed_write [simp]:
  "polls_needed (write_register_byte d REGISTER_CONTROL v) = polls_needed d"
  by (simp add: polls_needed_def write_register_byte_def reg_def REGISTER_CONTROL_def
      REGISTER_STATUS_def)

subsection \<open>Raw samples\<close>

lemma or_shifted_int:
  "0 \<le> x \<Longrightarrow> x < 2 ^ n \<Longrightarrow> push_bit n y OR x = x + 2 ^ n * (y::int)"
  using concat_bit_eq [of n x y]
  by (simp add: concat_bit_def take_bit_int_eq_self or.commute push_bit_eq_mult mult.commute)

lemma adc_le_unsigned:
  "(push_bit 16 (uint (b2::byte)) OR push_bit 8 (uint (b1::byte))) OR uint (b0::byte)
     = le_unsigned [b0, b1, b2]"
proof -
  have b0: "0 \<le> uint b0" "uint b0 < 2 ^ 8" using uint_bounded [of b0] by simp_all
  have b1: "0 \<le> uint b1" "uint b1 < 2 ^ 8" using uint_bounded [of b1] by simp_all
  have "push_bit 8 (uint b1) OR uint b0 = uint b0 + 2 ^ 8 * uint b1"
    by (rule or_shifted_int [OF b0])
  moreover have "0 \<le> uint b0 + 2 ^ 8 * uint b1" "uint b0 + 2 ^ 8 * uint b1 < 2 ^ 16"
    using b0 b1 by simp_all
  then have "push_bit 16 (uint b2) OR (uint b0 + 2 ^ 8 * uint b1)
               = (uint b0 + 2 ^ 8 * uint b1) + 2 ^ 16 * uint b2"
    by (rule or_shifted_int)
  ultimately show ?thesis
    by (simp add: or.assoc le_unsigned_def)
qed

lemma le_unsigned_3: "le_unsigned [b0, b1, b2] = uint b0 + 256 * uint b1 + 65536 * uint b2"
  by (simp add: le_unsigned_def)

lemma upt_6: "[0..<6] = [0, 1, 2, 3, 4, 5]"
  by code_simp

lemma read_register_data:
  "read_register d REGISTER_PRESSUREDATA 6 =
     ([reg d 4, reg d 5, reg d 6, reg d 7, reg d 8, reg d 9],
      d\<lparr>trace := trace d @ [RegRead 0x04 6]\<rparr>)"
  by (simp add: read_register_def reg_value_def reg_def REGISTER_PRESSUREDATA_def
      REGISTER_STATUS_def upt_6)

subsection \<open>One conversion\<close>

text \<open>What one conversion returns, in every arithmetic: the temperature polynomial, and
  the pressure polynomial unless one of its powers raises.\<close>

lemma and_then_Inl [simp]: "and_then (Inl e) f = Inl e"
  by (simp add: and_then_def)

lemma and_then_Inr [simp]: "and_then (Inr x) f = f x"
  by (simp add: and_then_def)

lemma pc_cases:
  fixes pc :: pressure_calib
  obtains P1 P2 P3 P4 P5 P6 P7 P8 P9 P10 P11 where
    "pc = (P1, P2, P3, P4, P5, P6, P7, P8, P9, P10, P11)"
proof (cases pc)
  case (fields a b c d e f g)
  then show ?thesis using that by (cases g) auto
qed

lemma read_measurement_returns:
  assumes "polls_needed d = Some k" and "k \<le> fuel"
  shows "read_measurement a fuel self d =
     Some (and_then
             (spec_pressure_raw a (pressure_calib self)
                (spec_temperature a (temp_calib self) (le_unsigned [reg d 7, reg d 8, reg d 9]))
                (le_unsigned [reg d 4, reg d 5, reg d 6]))
             (\<lambda>p. Inr (p, spec_temperature a (temp_calib self)
                               (le_unsigned [reg d 7, reg d 8, reg d 9]))),
           after_read k d)"
proof -
  let ?d0 = "write_register_byte d REGISTER_CONTROL 0x13"
  let ?d1 = "?d0\<lparr>status_feed := drop k (status_feed ?d0),
                  trace := trace ?d0 @ replicate k (RegRead 0x03 1)\<rparr>"
  have "polls_needed ?d0 = Some k" using assms(1) by simp
  from wait_ready_returns [OF this assms(2)]
  have w: "wait_ready fuel ?d0 = Some ?d1" .
  have dev: "?d1\<lparr>trace := trace ?d1 @ [RegRead 0x04 6]\<rparr> = after_read k d"
    by (simp add: after_read_def write_register_byte_def REGISTER_CONTROL_def)
  have data: "read_register ?d1 REGISTER_PRESSUREDATA 6 =
      ([reg d 4, reg d 5, reg d 6, reg d 7, reg d 8, reg d 9], after_read k d)"
    by (simp only: read_register_data dev)
      (simp add: reg_def write_register_byte_def REGISTER_CONTROL_def)
  obtain T1 T2 T3 where tc: "temp_calib self = (T1, T2, T3)" by (cases "temp_calib self")
  obtain P1 P2 P3 P4 P5 P6 P7 P8 P9 P10 P11 where
    pc: "pressure_calib self = (P1, P2, P3, P4, P5, P6, P7, P8, P9, P10, P11)"
    by (rule pc_cases)
  define adc_p where "adc_p = le_unsigned [reg d 4, reg d 5, reg d 6]"
  define adc_t where "adc_t = le_unsigned [reg d 7, reg d 8, reg d 9]"
  define t where "t = fadd a (fmul a (fsub a (fl a (of_int adc_t)) (fl a T1)) (fl a T2))
      (fmul a (fmul a (fsub a (fl a (of_int adc_t)) (fl a T1))
                 (fsub a (fl a (of_int adc_t)) (fl a T1))) (fl a T3))"
  have n: "[reg d 4, reg d 5, reg d 6, reg d 7, reg d 8, reg d 9] ! 0 = reg d 4"
    "[reg d 4, reg d 5, reg d 6, reg d 7, reg d 8, reg d 9] ! 1 = reg d 5"
    "[reg d 4, reg d 5, reg d 6, reg d 7, reg d 8, reg d 9] ! 2 = reg d 6"
    "[reg d 4, reg d 5, reg d 6, reg d 7, reg d 8, reg d 9] ! 3 = reg d 7"
    "[reg d 4, reg d 5, reg d 6, reg d 7, reg d 8, reg d 9] ! 4 = reg d 8"
    "[reg d 4, reg d 5, reg d 6, reg d 7, reg d 8, reg d 9] ! 5 = reg d 9"
    by simp_all
  have st: "spec_temperature a (T1, T2, T3) adc_t = t"
    by (simp add: spec_temperature_def t_def Let_def)
  show ?thesis
    unfolding read_measurement_def w option.case data prod.case n adc_le_unsigned tc pc
      adc_p_def [symmetric] adc_t_def [symmetric] st
    by (simp add: Let_def t_def [symmetric] spec_pressure_raw_def and_then_def
        split: sum.splits)
qed


lemma read_measurement_blocks:
  "polls_needed d = None \<Longrightarrow> read_measurement a fuel self d = None"
  by (simp add: read_measurement_def wait_ready_never)

lemma temperature_returns:
  assumes "polls_needed d = Some k" and "k \<le> fuel"
  shows "temperature a fuel self d =
     Some (and_then
             (spec_pressure_raw a (pressure_calib self)
                (spec_temperature a (temp_calib self) (le_unsigned [reg d 7, reg d 8, reg d 9]))
                (le_unsigned [reg d 4, reg d 5, reg d 6]))
             (\<lambda>p. Inr (spec_temperature a (temp_calib self)
                          (le_unsigned [reg d 7, reg d 8, reg d 9]))),
           after_read k d)"
  by (simp add: temperature_def read_measurement_returns [OF assms] and_then_def
      split: sum.splits)

lemma pressure_returns:
  assumes "polls_needed d = Some k" and "k \<le> fuel"
  shows "pressure a fuel self d =
     Some (and_then
             (spec_pressure_raw a (pressure_calib self)
                (spec_temperature a (temp_calib self) (le_unsigned [reg d 7, reg d 8, reg d 9]))
                (le_unsigned [reg d 4, reg d 5, reg d 6]))
             (\<lambda>p. Inr (fdiv a p (fl a 100))),
           after_read k d)"
  by (simp add: pressure_def read_measurement_returns [OF assms] and_then_def
      split: sum.splits)

lemma example_device_polls: "polls_needed example_device = Some 3"
  by (simp add: polls_needed_def example_device_def blank_device_def ready_def reg_def
      REGISTER_STATUS_def)

lemma example_device_sample:
  "le_unsigned [reg example_device 4, reg example_device 5, reg example_device 6] = 3"
  "le_unsigned [reg example_device 7, reg example_device 8, reg example_device 9] = 4"
  by (simp_all add: le_unsigned_def example_device_def blank_device_def reg_def)

lemma exact_arith_simps [simp]:
  "fl exact_arith x = x"
  "fadd exact_arith x y = x + y"
  "fsub exact_arith x y = x - y"
  "fmul exact_arith x y = x * y"
  "fdiv exact_arith x y = x / y"
  "fpow exact_arith x 2 = Inr (x\<^sup>2)"
  "fpow exact_arith x 3 = Inr (x ^ 3)"
  by (simp_all add: exact_arith_def)

lemma example_temperature:
  "spec_temperature exact_arith (temp_calib example_sensor) 4 = 2"
  by (simp add: spec_temperature_def example_sensor_def Let_def)

lemma example_pressure_raw:
  "spec_pressure_raw exact_arith (pressure_calib example_sensor) 2 3 = Inr 151"
  by (simp add: spec_pressure_raw_def example_sensor_def Let_def)

subsection \<open>Temperature and pressure\<close>

text \<open>
  Claim C1. For every triple of coefficients \<open>(T1, T2, T3)\<close> and every raw 24-bit
  temperature value \<open>adc_t\<close> (the little-endian reading of the three temperature data
  registers), once the status register shows both conversions complete within the polls
  allowed, the temperature \<open>_read\<close> computes is \<open>pd2 + pd1 * pd1 * T3\<close> with
  \<open>pd1 = adc_t - T1\<close> and \<open>pd2 = pd1 * T2\<close>, each operation that of the platform's
  floats and associated as written; it is the second component of what \<open>_read\<close>
  returns and what the \<open>temperature\<close> property returns, unscaled. (\<open>_read\<close> computes
  the pressure in the same call: were one of its powers to raise, the call would raise
  and return nothing.)
\<close>

theorem temperature_compensation:
  assumes "polls_needed d = Some k" and "k \<le> fuel"
    and "temp_calib self = (T1, T2, T3)"
    and "le_unsigned [reg d REGISTER_TEMPDATA, reg d (REGISTER_TEMPDATA + 1),
                      reg d (REGISTER_TEMPDATA + 2)] = adc_t"
    and "le_unsigned [reg d REGISTER_PRESSUREDATA, reg d (REGISTER_PRESSUREDATA + 1),
                      reg d (REGISTER_PRESSUREDATA + 2)] = adc_p"
  shows "(let pd1 = fsub a (fl a (of_int adc_t)) (fl a T1);
              pd2 = fmul a pd1 (fl a T2);
              t = fadd a pd2 (fmul a (fmul a pd1 pd1) (fl a T3));
              raw = spec_pressure_raw a (pressure_calib self) t adc_p
          in read_measurement a fuel self d
               = Some (and_then raw (\<lambda>p. Inr (p, t)), after_read k d) \<and>
             temperature a fuel self d = Some (and_then raw (\<lambda>p. Inr t), after_read k d) \<and>
             (\<forall>p. raw = Inr p \<longrightarrow>
                temperature a fuel self d = Some (Inr t, after_read k d)))"
proof -
  have t: "le_unsigned [reg d 7, reg d 8, reg d 9] = adc_t"
    using assms(4) by (simp add: REGISTER_TEMPDATA_def)
  have p: "le_unsigned [reg d 4, reg d 5, reg d 6] = adc_p"
    using assms(5) by (simp add: REGISTER_PRESSUREDATA_def)
  show ?thesis
    by (auto simp: Let_def read_measurement_returns [OF assms(1,2)]
        temperature_returns [OF assms(1,2)] t p assms(3) spec_temperature_def)
qed

theorem temperature_compensation_witness:
  "polls_needed example_device = Some 3 \<and> (3::nat) \<le> 5 \<and>
   temp_calib example_sensor = (2, 1 / 2, 1 / 4) \<and>
   le_unsigned [reg example_device REGISTER_TEMPDATA, reg example_device (REGISTER_TEMPDATA + 1),
                reg example_device (REGISTER_TEMPDATA + 2)] = 4 \<and>
   le_unsigned [reg example_device REGISTER_PRESSUREDATA,
                reg example_device (REGISTER_PRESSUREDATA + 1),
                reg example_device (REGISTER_PRESSUREDATA + 2)] = 3 \<and>
   read_measurement exact_arith 5 example_sensor example_device
     = Some (Inr (151, 2), after_read 3 example_device) \<and>
   temperature exact_arith 5 example_sensor example_device
     = Some (Inr 2, after_read 3 example_device)"
proof -
  have h1: "polls_needed example_device = Some 3" by (rule example_device_polls)
  have h2: "(3::nat) \<le> 5" by simp
  have h3: "temp_calib example_sensor = (2, 1 / 2, 1 / 4)" by (simp add: example_sensor_def)
  have h4: "le_unsigned [reg example_device REGISTER_TEMPDATA,
                         reg example_device (REGISTER_TEMPDATA + 1),
                         reg example_device (REGISTER_TEMPDATA + 2)] = 4"
    using example_device_sample(2) by (simp add: REGISTER_TEMPDATA_def)
  have h5: "le_unsigned [reg example_device REGISTER_PRESSUREDATA,
                         reg example_device (REGISTER_PRESSUREDATA + 1),
                         reg example_device (REGISTER_PRESSUREDATA + 2)] = 3"
    using example_device_sample(1) by (simp add: REGISTER_PRESSUREDATA_def)
  show ?thesis
    using h1 h2 h3 h4 h5 temperature_compensation [OF h1 h2 h3 h4 h5, of exact_arith]
      example_pressure_raw
    by (simp add: Let_def)
qed


text \<open>
  Claim C2. For every six bytes \<open>b0 .. b5\<close> the burst read from the pressure data
  register on returns, with bytes 0 to 2 the little-endian 24-bit pressure value
  \<open>adc_p\<close> and bytes 3 to 5 the temperature value, and for every coefficients
  \<open>P1 .. P11\<close>, once the status register shows both conversions complete within the
  polls allowed, the \<open>pressure\<close> property returns \<open>(po1 + po2 + pd4) / 100\<close>, where
  \<open>t\<close> is the temperature the same conversion computes,
  \<open>po1 = P5 + P6 t + P7 t\<^sup>2 + P8 t\<^sup>3\<close>,
  \<open>po2 = adc_p (P1 + P2 t + P3 t\<^sup>2 + P4 t\<^sup>3)\<close> and
  \<open>pd4 = adc_p\<^sup>2 (P9 + P10 t) + P11 adc_p\<^sup>3\<close>, each operation that of the platform's
  floats, associated as written, the powers \<open>t ** 2.0\<close>, \<open>t ** 3.0\<close>,
  \<open>adc_p ** 2.0\<close> and \<open>adc_p ** 3.0\<close> those of the platform; a power that raises makes
  the property raise that error.
\<close>

theorem pressure_compensation:
  assumes "polls_needed d = Some k" and "k \<le> fuel"
    and "pressure_calib self = (P1, P2, P3, P4, P5, P6, P7, P8, P9, P10, P11)"
    and "fst (read_register d REGISTER_PRESSUREDATA 6) = [b0, b1, b2, b3, b4, b5]"
    and "le_unsigned [b0, b1, b2] = adc_p"
    and "spec_temperature a (temp_calib self) (le_unsigned [b3, b4, b5]) = t"
  shows "pressure a fuel self d =
           Some (and_then (spec_pressure_raw a (pressure_calib self) t adc_p)
                   (\<lambda>p. Inr (fdiv a p (fl a 100))), after_read k d) \<and>
         temperature a fuel self d =
           Some (and_then (spec_pressure_raw a (pressure_calib self) t adc_p) (\<lambda>p. Inr t),
                 after_read k d) \<and>
         (fpow a t (fl a 2) = Inr t2 \<and> fpow a t (fl a 3) = Inr t3 \<and>
          fpow a (fl a (of_int adc_p)) (fl a 2) = Inr p2 \<and>
          fpow a (fl a (of_int adc_p)) (fl a 3) = Inr p3 \<longrightarrow>
            (let po1 = fadd a (fadd a (fadd a (fl a P5) (fmul a (fl a P6) t))
                                 (fmul a (fl a P7) t2)) (fmul a (fl a P8) t3);
                 po2 = fmul a (fl a (of_int adc_p))
                         (fadd a (fadd a (fadd a (fl a P1) (fmul a (fl a P2) t))
                                    (fmul a (fl a P3) t2)) (fmul a (fl a P4) t3));
                 pd4 = fadd a (fmul a p2 (fadd a (fl a P9) (fmul a (fl a P10) t)))
                         (fmul a (fl a P11) p3)
             in pressure a fuel self d =
                  Some (Inr (fdiv a (fadd a (fadd a po1 po2) pd4) (fl a 100)),
                        after_read k d) \<and>
                temperature a fuel self d = Some (Inr t, after_read k d)))"
proof -
  from assms(4) have b: "reg d 4 = b0" "reg d 5 = b1" "reg d 6 = b2" "reg d 7 = b3"
    "reg d 8 = b4" "reg d 9 = b5"
    by (simp_all add: read_register_data)
  note p = pressure_returns [OF assms(1,2), of a self, unfolded b assms(5,6)]
  note t = temperature_returns [OF assms(1,2), of a self, unfolded b assms(5,6)]
  show ?thesis
    by (simp add: p t) (simp add: assms(3) spec_pressure_raw_def Let_def)
qed

theorem pressure_compensation_witness:
  "polls_needed example_device = Some 3 \<and> (3::nat) \<le> 5 \<and>
   pressure_calib example_sensor = (1, 1, 0, 0, 100, 1, 1, 0, 1, 0, 1) \<and>
   fst (read_register example_device REGISTER_PRESSUREDATA 6) = [3, 0, 0, 4, 0, 0] \<and>
   le_unsigned [3, 0, 0] = 3 \<and>
   spec_temperature exact_arith (temp_calib example_sensor) (le_unsigned [4, 0, 0]) = 2 \<and>
   fpow exact_arith 2 (fl exact_arith 2) = Inr 4 \<and>
   fpow exact_arith 2 (fl exact_arith 3) = Inr 8 \<and>
   fpow exact_arith (fl exact_arith (of_int 3)) (fl exact_arith 2) = Inr 9 \<and>
   fpow exact_arith (fl exact_arith (of_int 3)) (fl exact_arith 3) = Inr 27 \<and>
   pressure exact_arith 5 example_sensor example_device
     = Some (Inr (151 / 100), after_read 3 example_device) \<and>
   temperature exact_arith 5 example_sensor example_device
     = Some (Inr 2, after_read 3 example_device)"
proof -
  have h1: "polls_needed example_device = Some 3" by (rule example_device_polls)
  have h2: "(3::nat) \<le> 5" by simp
  have h3: "pressure_calib example_sensor = (1, 1, 0, 0, 100, 1, 1, 0, 1, 0, 1)"
    by (simp add: example_sensor_def)
  have h4: "fst (read_register example_device REGISTER_PRESSUREDATA 6) = [3, 0, 0, 4, 0, 0]"
    by (simp add: read_register_data reg_def example_device_def blank_device_def)
  have h5: "le_unsigned [3, 0, 0] = 3" by (simp add: le_unsigned_def)
  have h6: "spec_temperature exact_arith (temp_calib example_sensor) (le_unsigned [4, 0, 0]) = 2"
    using example_temperature by (simp add: le_unsigned_def)
  have h7: "fpow exact_arith 2 (fl exact_arith 2) = Inr 4"
    "fpow exact_arith 2 (fl exact_arith 3) = Inr 8"
    "fpow exact_arith (fl exact_arith (of_int 3)) (fl exact_arith 2) = Inr 9"
    "fpow exact_arith (fl exact_arith (of_int 3)) (fl exact_arith 3) = Inr 27"
    by simp_all
  show ?thesis
    using h1 h2 h3 h4 h5 h6 h7
      pressure_compensation [OF h1 h2 h3 h4 h5 h6, of 4 8 9 27]
    by (simp add: Let_def example_pressure_raw [unfolded h3])
qed

subsection \<open>Calibration coefficients\<close>

text \<open>The fields \<open>struct.unpack\<close> decodes are the little-endian readings of the
  specification.\<close>

lemma centred_mod:
  fixes u h :: int
  assumes "0 \<le> u" and "u < 2 * h"
  shows "(u + h) mod (2 * h) - h = (if u < h then u else u - 2 * h)"
proof (cases "u < h")
  case True
  with assms have "(u + h) mod (2 * h) = u + h" by (simp add: mod_pos_pos_trivial)
  with True show ?thesis by simp
next
  case False
  have "(u + h) mod (2 * h) = ((u - h) + 1 * (2 * h)) mod (2 * h)" by (simp add: algebra_simps)
  also have "\<dots> = (u - h) mod (2 * h)" by (rule mod_mult_self1)
  also have "\<dots> = u - h" using False assms by (simp add: mod_pos_pos_trivial)
  finally show ?thesis using False by simp
qed

lemma sint_byte: "sint (b::byte) = twos_complement 8 (uint b)"
  using uint_bounded [of b] centred_mod [of "uint b" 128]
  by (simp add: sint_uint signed_take_bit_eq_take_bit_shift take_bit_eq_mod twos_complement_def)

lemma sint_word16: "sint (w::16 word) = twos_complement 16 (uint w)"
  using uint_bounded [of w] centred_mod [of "uint w" 32768]
  by (simp add: sint_uint signed_take_bit_eq_take_bit_shift take_bit_eq_mod twos_complement_def)

lemma uint_word_cat_bytes:
  "uint (word_cat (hi::byte) (lo::byte) :: 16 word) = uint lo + 256 * uint hi"
proof -
  have "0 \<le> uint lo + 256 * uint hi" "uint lo + 256 * uint hi < 2 ^ 16"
    using uint_bounded [of lo] uint_bounded [of hi] by simp_all
  then have "take_bit 16 (uint lo + 256 * uint hi) = uint lo + 256 * uint hi"
    by (rule take_bit_int_eq_self)
  moreover have "take_bit 8 (uint lo) = uint lo"
    using uint_bounded [of lo] by (simp add: take_bit_int_eq_self)
  moreover have "uint (word_cat hi lo :: 16 word) = take_bit 16 (concat_bit 8 (uint lo) (uint hi))"
    by (simp only: word_cat_eq' uint_word_of_int_eq) simp
  ultimately show ?thesis
    by (simp add: concat_bit_eq push_bit_eq_mult mult.commute)
qed

lemma unsigned16_le: "unsigned16 lo hi = le_unsigned [lo, hi]"
  by (simp add: unsigned16_def le_unsigned_def uint_word_cat_bytes)

lemma signed16_le: "signed16 lo hi = le_signed [lo, hi]"
  by (simp add: signed16_def le_signed_def le_unsigned_def sint_word16 uint_word_cat_bytes)

lemma signed8_le: "signed8 b = le_signed [b]"
  by (simp add: signed8_def le_signed_def le_unsigned_def sint_byte)

lemma unpack_calibration:
  "unpack ''<HHbhhbbHHbbhbb''
     [b0, b1, b2, b3, b4, b5, b6, b7, b8, b9, b10, b11, b12, b13, b14, b15, b16, b17, b18, b19, b20]
   = Inr [le_unsigned [b0, b1], le_unsigned [b2, b3], le_signed [b4], le_signed [b5, b6],
          le_signed [b7, b8], le_signed [b9], le_signed [b10], le_unsigned [b11, b12],
          le_unsigned [b13, b14], le_signed [b15], le_signed [b16], le_signed [b17, b18],
          le_signed [b19], le_signed [b20]]"
  by (simp add: unpack_def unsigned16_le signed16_le signed8_le)

lemma upt_21:
  "[0..<21] = [0, 1, 2, 3, 4, 5, 6, 7, 8, 9, 10, 11, 12, 13, 14, 15, 16, 17, 18, 19, 20]"
  by code_simp

lemma read_register_cal:
  "read_register d REGISTER_CAL_DATA 21 =
     (cal_block d, d\<lparr>trace := trace d @ [RegRead 0x31 21]\<rparr>)"
  by (simp add: read_register_def reg_value_def reg_def REGISTER_CAL_DATA_def cal_block_def
      REGISTER_STATUS_def upt_21)

lemma cal_block_bytes:
  "cal_block d =
     [reg d 0x31, reg d 0x32, reg d 0x33, reg d 0x34, reg d 0x35, reg d 0x36, reg d 0x37,
      reg d 0x38, reg d 0x39, reg d 0x3A, reg d 0x3B, reg d 0x3C, reg d 0x3D, reg d 0x3E,
      reg d 0x3F, reg d 0x40, reg d 0x41, reg d 0x42, reg d 0x43, reg d 0x44, reg d 0x45]"
  by (simp add: cal_block_def upt_21 REGISTER_CAL_DATA_def)

lemma decode_block:
  fixes bs :: "byte list"
  assumes bs: "bs = [b0, b1, b2, b3, b4, b5, b6, b7, b8, b9, b10, b11, b12, b13, b14, b15, b16,
                     b17, b18, b19, b20]"
  shows "(case unpack ''<HHbhhbbHHbbhbb'' bs of
             Inl e \<Rightarrow> (Inl e, d')
           | Inr coeff \<Rightarrow>
               (Inr ((of_int (coeff ! 0) / 2 powi (- 8),
                      of_int (coeff ! 1) / 2 powi 30,
                      of_int (coeff ! 2) / 2 powi 48),
                     ((of_int (coeff ! 3) - 2 powi 14) / 2 powi 20,
                      (of_int (coeff ! 4) - 2 powi 14) / 2 powi 29,
                      of_int (coeff ! 5) / 2 powi 32,
                      of_int (coeff ! 6) / 2 powi 37,
                      of_int (coeff ! 7) / 2 powi (- 3),
                      of_int (coeff ! 8) / 2 powi 6,
                      of_int (coeff ! 9) / 2 powi 8,
                      of_int (coeff ! 10) / 2 powi 15,
                      of_int (coeff ! 11) / 2 powi 48,
                      of_int (coeff ! 12) / 2 powi 48,
                      of_int (coeff ! 13) / 2 powi 65)), d'))
         = (Inr (spec_coefficients bs) :: error + temp_calib \<times> pressure_calib, d' :: device)"
  unfolding bs unpack_calibration sum.case spec_coefficients_def
  by simp

lemma read_coefficients_spec:
  "read_coefficients d =
     (Inr (spec_coefficients (cal_block d)), d\<lparr>trace := trace d @ [RegRead 0x31 21]\<rparr>)"
  unfolding read_coefficients_def read_register_cal prod.case
  by (rule decode_block [OF cal_block_bytes])

lemma example_device_block:
  "cal_block example_device = [1, 0, 2, 0, 0xFF, 0, 0, 0, 0, 0, 0, 0, 0, 0, 0, 0, 0, 0, 0, 0, 0]"
  by (simp add: cal_block_bytes reg_def example_device_def blank_device_def)

text \<open>
  Claim C3. For every 21-byte calibration block, \<open>_read_coefficients\<close> decodes it as
  the little-endian field sequence unsigned16, unsigned16, signed8, signed16, signed16,
  signed8, signed8, unsigned16, unsigned16, signed8, signed8, signed16, signed8, signed8
  for T1..T3 and P1..P11, and stores each raw integer divided by its power of two (T1 by
  \<open>2^-8\<close>, T2 by \<open>2^30\<close>, T3 by \<open>2^48\<close>, P3 by \<open>2^32\<close>, P4 by \<open>2^37\<close>, P5 by \<open>2^-3\<close>,
  P6 by \<open>2^6\<close>, P7 by \<open>2^8\<close>, P8 by \<open>2^15\<close>, P9 and P10 by \<open>2^48\<close>, P11 by \<open>2^65\<close>),
  P1 and P2 less \<open>2^14\<close> before the division by \<open>2^20\<close> and \<open>2^29\<close>.
\<close>

theorem read_coefficients_layout:
  assumes "fst (read_register d REGISTER_CAL_DATA 21) = bs"
  shows "length bs = 21 \<and>
         read_coefficients d =
           (Inr (spec_coefficients bs), d\<lparr>trace := trace d @ [RegRead 0x31 21]\<rparr>)"
proof -
  from assms have "bs = cal_block d" by (simp add: read_register_cal)
  then show ?thesis by (simp add: read_coefficients_spec) (simp add: cal_block_def)
qed

theorem read_coefficients_layout_witness:
  "fst (read_register example_device REGISTER_CAL_DATA 21)
     = [1, 0, 2, 0, 0xFF, 0, 0, 0, 0, 0, 0, 0, 0, 0, 0, 0, 0, 0, 0, 0, 0] \<and>
   read_coefficients example_device =
     (Inr ((256, 2 / 2 ^ 30, - 1 / 2 ^ 48),
           (- 16384 / 2 ^ 20, - 16384 / 2 ^ 29, 0, 0, 0, 0, 0, 0, 0, 0, 0)),
      example_device\<lparr>trace := trace example_device @ [RegRead 0x31 21]\<rparr>)"
proof -
  have h: "fst (read_register example_device REGISTER_CAL_DATA 21)
             = [1, 0, 2, 0, 0xFF, 0, 0, 0, 0, 0, 0, 0, 0, 0, 0, 0, 0, 0, 0, 0, 0]"
    by (simp add: read_register_cal example_device_block)
  have "spec_coefficients [1, 0, 2, 0, 0xFF, 0, 0, 0, 0, 0, 0, 0, 0, 0, 0, 0, 0, 0, 0, 0, 0]
          = ((256, 2 / 2 ^ 30, - 1 / 2 ^ 48),
             (- 16384 / 2 ^ 20, - 16384 / 2 ^ 29, 0, 0, 0, 0, 0, 0, 0, 0, 0))"
    by (simp add: spec_coefficients_def le_unsigned_def le_signed_def twos_complement_def)
  with h read_coefficients_layout [OF h] show ?thesis by simp
qed


subsection \<open>Construction\<close>

lemma chip_id_accepted:
  "uint (b::byte) \<in> {BMP388_CHIP_ID, BMP390_CHIP_ID} \<longleftrightarrow> b \<in> {0x50, 0x60}"
proof -
  have "uint b = 0x50 \<longleftrightarrow> b = 0x50" "uint b = 0x60 \<longleftrightarrow> b = 0x60"
    by (auto simp: word_uint_eq_iff)
  then show ?thesis by (simp add: BMP388_CHIP_ID_def BMP390_CHIP_ID_def)
qed


text \<open>
  Claim C8. For every byte the chip-ID register answers at construction: when it is
  \<open>0x50\<close> or \<open>0x60\<close> the constructor goes on (it reads the 21 calibration bytes and
  stores the coefficients, writes the reset command \<open>0xB6\<close> to the command register
  and sets the sea-level pressure to 1013.25); for any other byte it raises
  \<open>RuntimeError\<close> with the read of the chip-ID register as its only transaction.
\<close>

theorem init_checks_chip_id:
  "(reg d REGISTER_CHIPID \<in> {0x50, 0x60} \<longrightarrow>
      init d =
        (Inr \<lparr>temp_calib = fst (spec_coefficients (cal_block d)),
              pressure_calib = snd (spec_coefficients (cal_block d)),
              sea_level_pressure = 1013.25, wait_time = 0.002\<rparr>,
         d\<lparr>regs := (regs d)(0x7E := 0xB6),
           trace := trace d @ [RegRead 0x00 1, RegRead 0x31 21, RegWrite 0x7E 0xB6]\<rparr>)) \<and>
   (reg d REGISTER_CHIPID \<notin> {0x50, 0x60} \<longrightarrow>
      init d = (Inl RuntimeError, d\<lparr>trace := trace d @ [RegRead 0x00 1]\<rparr>))"
proof (intro conjI impI)
  assume "reg d REGISTER_CHIPID \<notin> {0x50, 0x60}"
  then have "uint (reg d REGISTER_CHIPID) \<notin> {BMP388_CHIP_ID, BMP390_CHIP_ID}"
    using chip_id_accepted [of "reg d REGISTER_CHIPID"] by blast
  then show "init d = (Inl RuntimeError, d\<lparr>trace := trace d @ [RegRead 0x00 1]\<rparr>)"
    by (simp add: init_def read_byte_CHIPID)
next
  let ?d1 = "d\<lparr>trace := trace d @ [RegRead 0x00 1]\<rparr>"
  assume "reg d REGISTER_CHIPID \<in> {0x50, 0x60}"
  then have ok: "uint (reg d REGISTER_CHIPID) \<in> {BMP388_CHIP_ID, BMP390_CHIP_ID}"
    using chip_id_accepted [of "reg d REGISTER_CHIPID"] by blast
  obtain tc pc where c: "spec_coefficients (cal_block d) = (tc, pc)"
    by (cases "spec_coefficients (cal_block d)")
  have block: "cal_block ?d1 = cal_block d"
    by (simp add: cal_block_def)
  have coeff: "read_coefficients ?d1 =
      (Inr (tc, pc), ?d1\<lparr>trace := trace ?d1 @ [RegRead 0x31 21]\<rparr>)"
    by (simp only: read_coefficients_spec block c)
  have dev: "reset (?d1\<lparr>trace := trace ?d1 @ [RegRead 0x31 21]\<rparr>) =
      d\<lparr>regs := (regs d)(0x7E := 0xB6),
        trace := trace d @ [RegRead 0x00 1, RegRead 0x31 21, RegWrite 0x7E 0xB6]\<rparr>"
    by (simp add: reset_def write_register_byte_def REGISTER_CMD_def)
  show "init d =
        (Inr \<lparr>temp_calib = fst (spec_coefficients (cal_block d)),
              pressure_calib = snd (spec_coefficients (cal_block d)),
              sea_level_pressure = 1013.25, wait_time = 0.002\<rparr>,
         d\<lparr>regs := (regs d)(0x7E := 0xB6),
           trace := trace d @ [RegRead 0x00 1, RegRead 0x31 21, RegWrite 0x7E 0xB6]\<rparr>)"
    unfolding init_def read_byte_CHIPID prod.case
    by (simp only: ok not_True_eq_False if_False coeff prod.case sum.case dev c fst_conv
        snd_conv)
qed

theorem init_checks_chip_id_witness:
  "reg example_device REGISTER_CHIPID \<in> {0x50, 0x60} \<and>
   reg blank_device REGISTER_CHIPID \<notin> {0x50, 0x60} \<and>
   init example_device =
     (Inr \<lparr>temp_calib = (256, 2 / 2 ^ 30, - 1 / 2 ^ 48),
           pressure_calib = (- 16384 / 2 ^ 20, - 16384 / 2 ^ 29, 0, 0, 0, 0, 0, 0, 0, 0, 0),
           sea_level_pressure = 1013.25, wait_time = 0.002\<rparr>,
      example_device\<lparr>regs := (regs example_device)(0x7E := 0xB6),
        trace := [RegRead 0x00 1, RegRead 0x31 21, RegWrite 0x7E 0xB6]\<rparr>) \<and>
   init blank_device = (Inl RuntimeError, blank_device\<lparr>trace := [RegRead 0x00 1]\<rparr>)"
proof -
  have h1: "reg example_device REGISTER_CHIPID \<in> {0x50, 0x60}"
    by (simp add: reg_def example_device_def blank_device_def REGISTER_CHIPID_def)
  have h2: "reg blank_device REGISTER_CHIPID \<notin> {0x50, 0x60}"
    by (simp add: reg_def blank_device_def)
  have c: "spec_coefficients (cal_block example_device)
          = ((256, 2 / 2 ^ 30, - 1 / 2 ^ 48),
             (- 16384 / 2 ^ 20, - 16384 / 2 ^ 29, 0, 0, 0, 0, 0, 0, 0, 0, 0))"
    by (simp add: example_device_block spec_coefficients_def le_unsigned_def le_signed_def
        twos_complement_def)
  have t: "trace example_device = []" "trace blank_device = []"
    by (simp_all add: example_device_def blank_device_def)
  show ?thesis
    using h1 h2 init_checks_chip_id [of example_device] init_checks_chip_id [of blank_device]
    by (simp add: c t)
qed


subsection \<open>Altitude\<close>




end
